theory Spec2Isabelle
  imports Main "HOL-Library.AList" "HOL-Library.Sublist" "HOL-Library.Multiset"
begin

section \<open>py\_liant.pyramid: the CRUD view\<close>

text \<open>
  A shallow embedding of \<^verbatim>\<open>src/py_liant/pyramid.py\<close>. The class \<^verbatim>\<open>CRUDView\<close> is a record,
  exceptions are values of the type \<open>error\<close> (a function that can raise returns
  \<open>error + 'a\<close>, \<open>Inl\<close> being the raised exception), a Python dict is an association
  list in insertion order, and the rows a SQLAlchemy query would return are a list.
\<close>

subsection \<open>Exceptions\<close>

text \<open>
  The exceptions the module raises or handles. An exception that carries a message holds
  it as its argument, so that \<^verbatim>\<open>str(ex)\<close> is that argument. \<open>OtherError\<close> stands for any
  exception class the module does not name.
\<close>

datatype error =
    HTTPNotFound
  | HTTPServerError string
  | HTTPConflict string
  | NoResultFound
  | MultipleResultsFound
  | StaleDataError string
  | VersionCheckError string
  | ValueError string
  | KeyError string
  | OtherError string

text \<open>The status code of the classes of \<^verbatim>\<open>pyramid.httpexceptions\<close> used here.\<close>

fun status_code :: "error \<Rightarrow> nat option" where
  "status_code HTTPNotFound = Some 404"
| "status_code (HTTPServerError m) = Some 500"
| "status_code (HTTPConflict m) = Some 409"
| "status_code e = None"

subsection \<open>Python strings\<close>

text \<open>\<^verbatim>\<open>s.split(sep)\<close> for a separator of one character: never an empty list.\<close>

fun str_split :: "char \<Rightarrow> string \<Rightarrow> string list" where
  "str_split sep [] = [[]]"
| "str_split sep (c # cs) =
     (if c = sep then [] # str_split sep cs
      else (case str_split sep cs of
              [] \<Rightarrow> [[c]]
            | t # ts \<Rightarrow> (c # t) # ts))"

text \<open>\<^verbatim>\<open>s.endswith(suffix)\<close>.\<close>

definition endswith :: "string \<Rightarrow> string \<Rightarrow> bool" where
  "endswith s suf =
     (length suf \<le> length s \<and> drop (length s - length suf) s = suf)"

text \<open>\<^verbatim>\<open>sep.join(xs)\<close>.\<close>

fun join :: "string \<Rightarrow> string list \<Rightarrow> string" where
  "join sep [] = []"
| "join sep [x] = x"
| "join sep (x # y # ys) = x @ sep @ join sep (y # ys)"

text \<open>
  \<^verbatim>\<open>int(s)\<close> for a string \<open>s\<close>: surrounding whitespace is stripped, one sign is allowed,
  then decimal digits, with single underscores between digits; anything else raises
  \<^verbatim>\<open>ValueError\<close>. Characters are the code points below 256, where the decimal digits are
  \<open>0\<close> to \<open>9\<close> and the whitespace characters are the twelve listed.
\<close>

definition isspace :: "char \<Rightarrow> bool" where
  "isspace c = (of_char c \<in> {9, 10, 11, 12, 13, 28, 29, 30, 31, 32, 133, 160 :: nat})"

definition strip :: "string \<Rightarrow> string" where
  "strip s = rev (dropWhile isspace (rev (dropWhile isspace s)))"

definition digit_value :: "char \<Rightarrow> nat option" where
  "digit_value c =
     (if 48 \<le> (of_char c :: nat) \<and> (of_char c :: nat) \<le> 57 then Some (of_char c - 48)
      else None)"

fun int_digits :: "nat \<Rightarrow> string \<Rightarrow> nat option" where
  "int_digits acc [] = Some acc"
| "int_digits acc [c] =
     (case digit_value c of None \<Rightarrow> None | Some k \<Rightarrow> Some (10 * acc + k))"
| "int_digits acc (c # d # ds) =
     (if c = CHR ''_'' then
        (case digit_value d of None \<Rightarrow> None | Some k \<Rightarrow> int_digits (10 * acc + k) ds)
      else
        (case digit_value c of None \<Rightarrow> None | Some k \<Rightarrow> int_digits (10 * acc + k) (d # ds)))"

definition unsigned_int :: "string \<Rightarrow> nat option" where
  "unsigned_int s =
     (case s of
        [] \<Rightarrow> None
      | c # cs \<Rightarrow> (case digit_value c of None \<Rightarrow> None | Some k \<Rightarrow> int_digits k cs))"

definition py_int :: "string \<Rightarrow> error + int" where
  "py_int s =
     (case (case strip s of
              c # cs \<Rightarrow>
                (if c = CHR ''-'' then map_option (\<lambda>n. - int n) (unsigned_int cs)
                 else if c = CHR ''+'' then map_option int (unsigned_int cs)
                 else map_option int (unsigned_int (c # cs)))
            | [] \<Rightarrow> None) of
        None \<Rightarrow> Inl (ValueError s)
      | Some n \<Rightarrow> Inr n)"

subsection \<open>Queries\<close>

text \<open>
  The rows a query returns, in the order the store returns them, with the row lock the
  query asks for. \<^verbatim>\<open>Query.one()\<close> returns the only row and raises when there is none or
  more than one; \<^verbatim>\<open>Query.count()\<close> is the number of rows; \<^verbatim>\<open>Query.all()\<close> is the rows.
\<close>

datatype lock_mode = NoLock | ForUpdate | ForUpdateOfTarget

record 'r query =
  result_rows :: "'r list"
  lock :: lock_mode

definition filter_rows :: "('r \<Rightarrow> bool) \<Rightarrow> 'r query \<Rightarrow> 'r query" where
  "filter_rows P q = q\<lparr>result_rows := filter P (result_rows q)\<rparr>"

definition with_for_update :: "lock_mode \<Rightarrow> 'r query \<Rightarrow> 'r query" where
  "with_for_update m q = q\<lparr>lock := m\<rparr>"

fun one :: "'r list \<Rightarrow> error + 'r" where
  "one [] = Inl NoResultFound"
| "one [x] = Inr x"
| "one (x # y # zs) = Inl MultipleResultsFound"

text \<open>
  \<^verbatim>\<open>query[slice(start, stop)]\<close>: SQLAlchemy's \<^verbatim>\<open>Query.__getitem__\<close> returns the empty list
  when \<open>stop - start \<le> 0\<close>, slices the list of all rows as Python does when a bound is
  negative, and otherwise reads \<open>stop - start\<close> rows from offset \<open>start\<close>; the last two
  are both Python's list slice, where a negative bound counts from the end and every
  bound is clipped to the list.
\<close>

definition slice_index :: "int \<Rightarrow> nat \<Rightarrow> nat" where
  "slice_index i n = (if i < 0 then nat (max 0 (i + int n)) else min (nat i) n)"

definition getitem_slice :: "int \<times> int \<Rightarrow> 'a list \<Rightarrow> 'a list" where
  "getitem_slice sl xs =
     (if snd sl - fst sl \<le> 0 then []
      else take (slice_index (snd sl) (length xs) - slice_index (fst sl) (length xs))
             (drop (slice_index (fst sl) (length xs)) xs))"

subsection \<open>The view, its request and the session\<close>

text \<open>
  A filter builder of the registry \<^verbatim>\<open>filters\<close> takes the raw value of a query parameter
  and returns \<^verbatim>\<open>None\<close>, one criterion, or a list or a tuple whose elements are criteria
  or \<^verbatim>\<open>None\<close>; it may raise. An entry of \<^verbatim>\<open>accept_order\<close> is one expression or a list
  of expressions. What \<^verbatim>\<open>order_by\<close> receives is the constant \<^verbatim>\<open>False\<close>, an expression
  as it is (ascending), or \<^verbatim>\<open>expression.desc()\<close>.
\<close>

datatype 'x filter_result =
    PyNone
  | Clause 'x
  | PyList "'x option list"
  | PyTuple "'x option list"

datatype 'x order_entry = Expression 'x | ExpressionList "'x list"

datatype 'x order_clause = PyFalse | Asc 'x | Desc 'x

text \<open>
  The database session, as the view uses it: the rows of the target type, how the store
  evaluates a criterion on a row and orders rows, the column collection \<^verbatim>\<open>query.c\<close> of a
  subquery on the target type, the values the store assigns on INSERT, and whether
  committing a set of pending rows fails (\<open>None\<close>: the commit succeeds).
\<close>

record ('r, 'x) dbsession =
  rows :: "'r list"
  holds :: "'x \<Rightarrow> 'r \<Rightarrow> bool"
  order_by :: "'x order_clause list \<Rightarrow> 'r list \<Rightarrow> 'r list"
  subquery_c :: "(string \<times> 'x) list"
  server_defaults :: "'r \<Rightarrow> 'r"
  commit_error :: "'r list \<Rightarrow> error option"

text \<open>
  The class attributes of \<^verbatim>\<open>CRUDView\<close> and what a subclass overrides, with the two parts
  of the request the view reads: the query parameters \<^verbatim>\<open>request.GET\<close> and the decoded
  body \<^verbatim>\<open>request.json\<close> (decoding may raise). \<open>context_filter\<close> and \<open>identity_filter\<close>
  are the rows their criteria select. \<open>entity_apply_changes\<close> is the entity's own
  \<^verbatim>\<open>apply_changes(data)\<close>, which is not part of this module: it returns the changed
  entity or raises. \<open>target_type\<close> is the entity \<^verbatim>\<open>target_type()\<close> constructs.
\<close>

record ('r, 'x, 'v) CRUDView =
  filters :: "(string \<times> (string \<Rightarrow> error + 'x filter_result)) list"
  accept_order :: "(string \<times> 'x order_entry) list"
  target_type :: "'r"
  target_is_aliased :: bool
  target_name :: string
  update_lock :: bool
  use_subquery_after_filter :: bool
  identity_filter :: "'r \<Rightarrow> bool"
  context_filter :: "'r \<Rightarrow> bool"
  runtime_filters :: "'x list"
  entity_apply_changes :: "'r \<Rightarrow> 'v \<Rightarrow> error + 'r"
  GET :: "string \<rightharpoonup> string"
  json :: "error + (string \<rightharpoonup> 'v)"

definition sanitize_input :: "('r, 'x, 'v) CRUDView \<Rightarrow> error + 'v" where
  "sanitize_input v =
     (case json v of
        Inl e \<Rightarrow> Inl e
      | Inr body \<Rightarrow>
          (case body (target_name v) of
             None \<Rightarrow> Inl (KeyError (target_name v))
           | Some data \<Rightarrow> Inr data))"

definition get_base_query :: "('r, 'x, 'v) CRUDView \<Rightarrow> ('r, 'x) dbsession \<Rightarrow> 'r query" where
  "get_base_query v db = \<lparr>result_rows = rows db, lock = NoLock\<rparr>"

definition get_identity_base :: "('r, 'x, 'v) CRUDView \<Rightarrow> ('r, 'x) dbsession \<Rightarrow> 'r query" where
  "get_identity_base v db = get_base_query v db"

definition get_list_base :: "('r, 'x, 'v) CRUDView \<Rightarrow> ('r, 'x) dbsession \<Rightarrow> 'r query" where
  "get_list_base v db = get_base_query v db"

subsection \<open>Single-row lookup\<close>

text \<open>The handler \<^verbatim>\<open>except NoResultFound: raise HTTPNotFound()\<close>; any other exception passes.\<close>

fun not_found :: "error \<Rightarrow> error" where
  "not_found NoResultFound = HTTPNotFound"
| "not_found e = e"

definition get_by_id ::
  "('r, 'x, 'v) CRUDView \<Rightarrow> ('r, 'x) dbsession \<Rightarrow> bool \<Rightarrow> error + 'r" where
  "get_by_id v db upd_lock =
     (let query = get_identity_base v db;
          query = (if upd_lock then
                     (if target_is_aliased v then with_for_update ForUpdateOfTarget query
                      else with_for_update ForUpdate query)
                   else query)
      in case one (result_rows
                (filter_rows (\<lambda>r. context_filter v r \<and> identity_filter v r) query)) of
           Inl e \<Rightarrow> Inl (not_found e)
         | Inr obj \<Rightarrow> Inr obj)"

subsection \<open>Filters, ordering, pagination\<close>

text \<open>
  A list comprehension whose element expressions may raise: the first exception ends it.
\<close>

fun raise_first :: "(error + 'a) list \<Rightarrow> error + 'a list" where
  "raise_first [] = Inr []"
| "raise_first (Inl e # rs) = Inl e"
| "raise_first (Inr a # rs) = (case raise_first rs of Inl e \<Rightarrow> Inl e | Inr as \<Rightarrow> Inr (a # as))"

text \<open>
  The two comprehensions over \<^verbatim>\<open>tmp\<close> in \<^verbatim>\<open>get_query_filters\<close>: the results that are
  neither a list, a tuple nor \<^verbatim>\<open>None\<close>, then the elements other than \<^verbatim>\<open>None\<close> of the
  results that are a list or a tuple.
\<close>

fun plain_result :: "'x filter_result \<Rightarrow> 'x list" where
  "plain_result (Clause c) = [c]"
| "plain_result r = []"

fun sequence_result :: "'x filter_result \<Rightarrow> 'x list" where
  "sequence_result (PyList cs) = [c. Some c \<leftarrow> cs]"
| "sequence_result (PyTuple cs) = [c. Some c \<leftarrow> cs]"
| "sequence_result r = []"

text \<open>
  \<^verbatim>\<open>tmp\<close>: the registry is walked in its own order; a key is used when the request has
  it and \<^verbatim>\<open>exclude\<close> does not. A dict holds a key once, so walking the keys and reading
  \<^verbatim>\<open>self.filters[key]\<close> is walking the items.
\<close>

definition invoked_builders ::
  "('r, 'x, 'v) CRUDView \<Rightarrow> string list option \<Rightarrow> (error + 'x filter_result) list" where
  "invoked_builders v exclude =
     concat (map (\<lambda>(key, builder).
        (case GET v key of
           None \<Rightarrow> []
         | Some raw \<Rightarrow>
             (if exclude = None \<or> key \<notin> set (case exclude of None \<Rightarrow> [] | Some ks \<Rightarrow> ks)
              then [builder raw] else []))) (filters v))"

definition get_query_filters ::
  "('r, 'x, 'v) CRUDView \<Rightarrow> string list option \<Rightarrow> error + 'x list" where
  "get_query_filters v exclude =
     (case raise_first (invoked_builders v exclude) of
        Inl e \<Rightarrow> Inl e
      | Inr tmp \<Rightarrow>
          Inr (concat (map plain_result tmp) @ concat (map sequence_result tmp)
               @ runtime_filters v))"

definition query_filters :: "('r, 'x, 'v) CRUDView \<Rightarrow> error + 'x list" where
  "query_filters v = get_query_filters v None"

text \<open>
  \<^verbatim>\<open>orders\<close> is the list of the pairs (key, descending) of the tokens. With every key in
  \<^verbatim>\<open>accept_order\<close>, \<^verbatim>\<open>selected\<close> holds the entry of each key with the token's flag; the
  lookup \<^verbatim>\<open>self.accept_order[order[0]]\<close> cannot miss there, since the check before it has
  raised when a key is missing, so the branch \<open>None\<close> of the lookup is never taken.

  \<^verbatim>\<open>order_clauses\<close> is a generator function (its body has \<^verbatim>\<open>yield\<close>): its value here is
  what iterating the generator gives, the exception it raises or the list of the values
  it yields. A \<^verbatim>\<open>return\<close> with a value inside a generator ends the iteration and the
  value is not yielded, so the first branch yields nothing.
\<close>

definition order_item :: "string \<Rightarrow> string \<times> bool" where
  "order_item item =
     (if endswith item '' desc'' then (take (length item - 5) item, True) else (item, False))"

definition parse_order :: "string \<Rightarrow> (string \<times> bool) list" where
  "parse_order s = map order_item (str_split CHR '','' s)"

definition direction :: "bool \<Rightarrow> 'x \<Rightarrow> 'x order_clause" where
  "direction descending elem = (if descending then Desc elem else Asc elem)"

fun yield_order :: "'x order_entry \<times> bool \<Rightarrow> 'x order_clause list" where
  "yield_order (ExpressionList elems, d) = map (direction d) elems"
| "yield_order (Expression elem, d) = [direction d elem]"

definition order_clauses :: "('r, 'x, 'v) CRUDView \<Rightarrow> error + 'x order_clause list" where
  "order_clauses v =
     (case GET v ''order'' of
        None \<Rightarrow> Inr []
      | Some s \<Rightarrow>
          (if s = [] then Inr []
           else
             (let orders = parse_order s in
              if list_ex (\<lambda>order. map_of (accept_order v) (fst order) = None) orders then
                Inl (HTTPServerError (''not implemented, order by '' @
                  join '', '' [fst order. order \<leftarrow> orders,
                                map_of (accept_order v) (fst order) = None]))
              else
                Inr (concat (map yield_order
                  (concat (map (\<lambda>order.
                     (case map_of (accept_order v) (fst order) of
                        None \<Rightarrow> []
                      | Some entry \<Rightarrow> [(entry, snd order)])) orders)))))))"

definition pager_slice :: "('r, 'x, 'v) CRUDView \<Rightarrow> error + (int \<times> int) option" where
  "pager_slice v =
     (case GET v ''pageSize'' of
        None \<Rightarrow> Inr None
      | Some s \<Rightarrow>
          (case py_int s of
             Inl e \<Rightarrow> Inl e
           | Inr page_size \<Rightarrow>
               (if page_size \<le> 0 then Inr None
                else
                  (case (case GET v ''page'' of None \<Rightarrow> Inr 0 | Some t \<Rightarrow> py_int t) of
                     Inl e \<Rightarrow> Inl e
                   | Inr page \<Rightarrow>
                       Inr (Some (page * page_size, page * page_size + page_size))))))"

subsection \<open>Search\<close>

text \<open>
  \<^verbatim>\<open>query.filter(*criteria)\<close> keeps the rows on which every criterion holds. The function
  returns the pair of the method together with the view, whose \<^verbatim>\<open>accept_order\<close> the
  method assigns when \<^verbatim>\<open>use_subquery_after_filter\<close> is set: the assignment stands before
  \<^verbatim>\<open>order_clauses\<close> is read, so an exception raised there leaves it done. The rows of
  the query on the subquery's columns are the rows of the subquery.
\<close>

definition rewrite_accept_order ::
  "('r, 'x, 'v) CRUDView \<Rightarrow> ('r, 'x) dbsession \<Rightarrow> ('r, 'x, 'v) CRUDView" where
  "rewrite_accept_order v db =
     (if use_subquery_after_filter v
      then v\<lparr>accept_order := map (\<lambda>(name, col). (name, Expression col)) (subquery_c db)\<rparr>
      else v)"

definition get_search_results ::
  "('r, 'x, 'v) CRUDView \<Rightarrow> ('r, 'x) dbsession \<Rightarrow> 'r query option
     \<Rightarrow> (error + 'r list \<times> nat) \<times> ('r, 'x, 'v) CRUDView" where
  "get_search_results v db query_arg =
     (let query = (case query_arg of
                     None \<Rightarrow> filter_rows (context_filter v) (get_list_base v db)
                   | Some q \<Rightarrow> q)
      in case query_filters v of
           Inl e \<Rightarrow> (Inl e, v)
         | Inr criteria \<Rightarrow>
             (let query = filter_rows (\<lambda>r. list_all (\<lambda>c. holds db c r) criteria) query in
              case pager_slice v of
                Inl e \<Rightarrow> (Inl e, v)
              | Inr pager \<Rightarrow>
                  (let cnt = length (result_rows query);
                       v' = rewrite_accept_order v db
                   in case order_clauses v' of
                        Inl e \<Rightarrow> (Inl e, v')
                      | Inr clauses \<Rightarrow>
                          (let ordered = order_by db clauses (result_rows query)
                           in (Inr (case pager of
                                      Some sl \<Rightarrow> getitem_slice sl ordered
                                    | None \<Rightarrow> ordered, cnt), v')))))"

subsection \<open>Transactions\<close>

text \<open>
  \<^verbatim>\<open>with transaction.manager:\<close> around a block. The block either raises or ends with
  the rows it wants stored and the value it has computed. An exception aborts: nothing
  is stored and the exception goes on. A normal end commits; a commit that fails stores
  nothing and raises.
\<close>

definition transaction_manager ::
  "('r, 'x) dbsession \<Rightarrow> error + 'r list \<times> 'a \<Rightarrow> (error + 'a) \<times> ('r, 'x) dbsession" where
  "transaction_manager db block =
     (case block of
        Inl e \<Rightarrow> (Inl e, db)
      | Inr (pending, a) \<Rightarrow>
          (case commit_error db pending of
             Some e \<Rightarrow> (Inl e, db)
           | None \<Rightarrow> (Inr a, db\<lparr>rows := pending\<rparr>)))"

subsection \<open>The operations\<close>

text \<open>
  What an operation returns: \<^verbatim>\<open>{target_name: obj}\<close>, \<^verbatim>\<open>dict(items=items, total=count)\<close>
  or \<^verbatim>\<open>HTTPOk()\<close>.
\<close>

datatype 'r response = Entity string 'r | Listing "'r list" nat | HTTPOk

definition get :: "('r, 'x, 'v) CRUDView \<Rightarrow> ('r, 'x) dbsession \<Rightarrow> error + 'r response" where
  "get v db =
     (case get_by_id v db False of
        Inl e \<Rightarrow> Inl e
      | Inr obj \<Rightarrow> Inr (Entity (target_name v) obj))"

definition list_op ::
  "('r, 'x, 'v) CRUDView \<Rightarrow> ('r, 'x) dbsession
     \<Rightarrow> (error + 'r response) \<times> ('r, 'x, 'v) CRUDView" where
  "list_op v db =
     (case get_search_results v db None of
        (Inl e, v') \<Rightarrow> (Inl e, v')
      | (Inr (items, cnt), v') \<Rightarrow> (Inr (Listing items cnt), v'))"

definition apply_changes ::
  "('r, 'x, 'v) CRUDView \<Rightarrow> 'r \<Rightarrow> 'v \<Rightarrow> bool \<Rightarrow> error + 'r" where
  "apply_changes v obj data for_update = entity_apply_changes v obj data"

text \<open>
  The two handlers of \<^verbatim>\<open>update\<close>: \<^verbatim>\<open>except VersionCheckError as ex: raise
  HTTPConflict(str(ex))\<close> around \<^verbatim>\<open>apply_changes\<close>, and \<^verbatim>\<open>except StaleDataError as ex:
  raise HTTPConflict(str(ex))\<close> around the transaction.
\<close>

fun version_conflict :: "error \<Rightarrow> error" where
  "version_conflict (VersionCheckError m) = HTTPConflict m"
| "version_conflict e = e"

fun stale_conflict :: "error \<Rightarrow> error" where
  "stale_conflict (StaleDataError m) = HTTPConflict m"
| "stale_conflict e = e"

text \<open>
  The block of \<^verbatim>\<open>update\<close>: the row read by \<^verbatim>\<open>get_by_id\<close> is the one row the lookup
  selects, and the changed entity takes its place among the pending rows.
\<close>

definition update_block ::
  "('r, 'x, 'v) CRUDView \<Rightarrow> ('r, 'x) dbsession \<Rightarrow> error + 'r list \<times> unit" where
  "update_block v db =
     (case get_by_id v db (update_lock v) of
        Inl e \<Rightarrow> Inl e
      | Inr old \<Rightarrow>
          (case sanitize_input v of
             Inl e \<Rightarrow> Inl e
           | Inr data \<Rightarrow>
               (case apply_changes v old data True of
                  Inl e \<Rightarrow> Inl (version_conflict e)
                | Inr new \<Rightarrow>
                    Inr (map (\<lambda>r. if context_filter v r \<and> identity_filter v r then new else r)
                           (rows db), ()))))"

definition update ::
  "('r, 'x, 'v) CRUDView \<Rightarrow> ('r, 'x) dbsession
     \<Rightarrow> (error + 'r response) \<times> ('r, 'x) dbsession" where
  "update v db =
     (case transaction_manager db (update_block v db) of
        (Inl e, db') \<Rightarrow> (Inl (stale_conflict e), db')
      | (Inr u, db') \<Rightarrow> (get v db', db'))"

definition insert_op ::
  "('r, 'x, 'v) CRUDView \<Rightarrow> ('r, 'x) dbsession
     \<Rightarrow> (error + 'r response) \<times> ('r, 'x) dbsession" where
  "insert_op v db =
     (case sanitize_input v of
        Inl e \<Rightarrow> (Inl e, db)
      | Inr data \<Rightarrow>
          (case transaction_manager db
                  (case apply_changes v (target_type v) data False of
                     Inl e \<Rightarrow> Inl e
                   | Inr obj \<Rightarrow>
                       Inr (rows db @ [server_defaults db obj], server_defaults db obj)) of
             (Inl e, db') \<Rightarrow> (Inl e, db')
           | (Inr obj, db') \<Rightarrow> (Inr (Entity (target_name v) obj), db')))"

definition delete ::
  "('r, 'x, 'v) CRUDView \<Rightarrow> ('r, 'x) dbsession
     \<Rightarrow> (error + 'r response) \<times> ('r, 'x) dbsession" where
  "delete v db =
     (case transaction_manager db
             (case get_by_id v db False of
                Inl e \<Rightarrow> Inl e
              | Inr old \<Rightarrow>
                  Inr (filter (\<lambda>r. \<not> (context_filter v r \<and> identity_filter v r)) (rows db),
                       ())) of
        (Inl e, db') \<Rightarrow> (Inl e, db')
      | (Inr u, db') \<Rightarrow> (Inr HTTPOk, db'))"

text \<open>
  One request: the operation the route selects, run on the view and the session; the
  view and the session are returned as the operation leaves them.
\<close>

datatype operation = Get | List | Insert | Update | Delete

fun handle ::
  "operation \<Rightarrow> ('r, 'x, 'v) CRUDView \<Rightarrow> ('r, 'x) dbsession
     \<Rightarrow> (error + 'r response) \<times> ('r, 'x, 'v) CRUDView \<times> ('r, 'x) dbsession" where
  "handle Get v db = (get v db, v, db)"
| "handle List v db = (case list_op v db of (r, v') \<Rightarrow> (r, v', db))"
| "handle Insert v db = (case insert_op v db of (r, db') \<Rightarrow> (r, v, db'))"
| "handle Update v db = (case update v db of (r, db') \<Rightarrow> (r, v, db'))"
| "handle Delete v db = (case delete v db of (r, db') \<Rightarrow> (r, v, db'))"

subsection \<open>Filters derived from the mapped columns\<close>

text \<open>
  What \<^verbatim>\<open>inspect(target).all_orm_descriptors.values()\<close> gives: each descriptor with its
  key, whether it is an attribute, its extension type and its mapper property; a column
  property carries the type of its first column. \<^verbatim>\<open>isinstance(type, String)\<close> holds for
  \<^verbatim>\<open>String\<close> and its subclasses.
\<close>

datatype extension_type = NOT_EXTENSION | HYBRID_PROPERTY | HYBRID_METHOD | ASSOCIATION_PROXY

datatype column_type =
    String_type | Text_type | Unicode_type | Enum_type
  | Integer_type | Numeric_type | Boolean_type | DateTime_type | Other_type

datatype mapper_property =
    ColumnProperty column_type
  | RelationshipProperty
  | CompositeProperty
  | SynonymProperty

record descriptor =
  key :: string
  is_attribute :: bool
  extension :: extension_type
  property :: mapper_property












subsection \<open>The version check of an entity\<close>

text \<open>
  Modelled from the spec: the entity's own \<^verbatim>\<open>apply_changes(data)\<close>, defined in
  \<^verbatim>\<open>py_liant.monkeypatch\<close>, which is not among the sources. The spec: "if the entity
  carries a version/revision field, compare the version distributed by the input against
  the row's current version --- mismatch raises a VersionConflict error". \<open>stored_version\<close>
  reads the version field of the row (\<open>None\<close>: the entity has none), \<open>input_version\<close> the
  version the input carries, \<open>describe\<close> is the message of the exception and \<open>assign\<close>
  the assignment of the fields, which the spec leaves open.
\<close>

definition versioned_apply_changes ::
  "('r \<Rightarrow> 'n option) \<Rightarrow> ('v \<Rightarrow> 'n option) \<Rightarrow> ('r \<Rightarrow> 'v \<Rightarrow> string)
     \<Rightarrow> ('r \<Rightarrow> 'v \<Rightarrow> error + 'r) \<Rightarrow> 'r \<Rightarrow> 'v \<Rightarrow> error + 'r" where
  "versioned_apply_changes stored_version input_version describe assign obj data =
     (case stored_version obj of
        None \<Rightarrow> assign obj data
      | Some current \<Rightarrow>
          (case input_version data of
             None \<Rightarrow> assign obj data
           | Some given \<Rightarrow>
               (if given \<noteq> current then Inl (VersionCheckError (describe obj data))
                else assign obj data)))"

subsection \<open>Notions of the specification\<close>

text \<open>
  The ordering the spec describes for a list of (key, descending) pairs: each key's entry
  of the registry in the order of the tokens, a list entry expanded into one element per
  expression, every element with the token's direction.
\<close>

fun resolved_ordering ::
  "(string \<times> 'x order_entry) list \<Rightarrow> (string \<times> bool) list \<Rightarrow> 'x order_clause list" where
  "resolved_ordering registry [] = []"
| "resolved_ordering registry ((k, descending) # rest) =
     (case map_of registry k of
        None \<Rightarrow> []
      | Some (Expression e) \<Rightarrow> [if descending then Desc e else Asc e]
      | Some (ExpressionList es) \<Rightarrow> map (\<lambda>e. if descending then Desc e else Asc e) es)
     @ resolved_ordering registry rest"

text \<open>The base keys of the tokens of an order parameter that the registry does not have.\<close>

definition unknown_keys :: "('r, 'x, 'v) CRUDView \<Rightarrow> string \<Rightarrow> string list" where
  "unknown_keys v s =
     filter (\<lambda>k. map_of (accept_order v) k = None) (map fst (parse_order s))"

text \<open>
  The rows a search is about: those that satisfy the context restriction and every
  criterion of a list.
\<close>

definition matching_rows ::
  "('r, 'x, 'v) CRUDView \<Rightarrow> ('r, 'x) dbsession \<Rightarrow> 'x list \<Rightarrow> 'r list" where
  "matching_rows v db criteria =
     filter (\<lambda>r. context_filter v r \<and> list_all (\<lambda>c. holds db c r) criteria) (rows db)"

text \<open>
  The resolution of the request filters as the spec words it: for each key of the
  registry that the query parameters have, the builder is invoked with the raw value; a
  result \<^verbatim>\<open>None\<close> contributes nothing, a single criterion contributes itself, a list or
  a tuple contributes its elements other than \<^verbatim>\<open>None\<close>; the contributions are flattened
  in the order of the registry and the runtime filters are appended. An exception of a
  builder ends the resolution.
\<close>

fun contribution :: "'x filter_result \<Rightarrow> 'x list" where
  "contribution PyNone = []"
| "contribution (Clause c) = [c]"
| "contribution (PyList cs) = [c. Some c \<leftarrow> cs]"
| "contribution (PyTuple cs) = [c. Some c \<leftarrow> cs]"

fun resolve_registry ::
  "(string \<times> (string \<Rightarrow> error + 'x filter_result)) list \<Rightarrow> (string \<rightharpoonup> string)
     \<Rightarrow> error + 'x list" where
  "resolve_registry [] params = Inr []"
| "resolve_registry ((k, builder) # registry) params =
     (case params k of
        None \<Rightarrow> resolve_registry registry params
      | Some raw \<Rightarrow>
          (case builder raw of
             Inl e \<Rightarrow> Inl e
           | Inr result \<Rightarrow>
               (case resolve_registry registry params of
                  Inl e \<Rightarrow> Inl e
                | Inr cs \<Rightarrow> Inr (contribution result @ cs))))"

definition resolved_filters :: "('r, 'x, 'v) CRUDView \<Rightarrow> error + 'x list" where
  "resolved_filters v =
     (case resolve_registry (filters v) (GET v) of
        Inl e \<Rightarrow> Inl e
      | Inr cs \<Rightarrow> Inr (cs @ runtime_filters v))"

text \<open>The classes the two handlers of \<^verbatim>\<open>update\<close> name, as tests on an exception.\<close>

fun isinstance_StaleDataError :: "error \<Rightarrow> bool" where
  "isinstance_StaleDataError (StaleDataError m) = True"
| "isinstance_StaleDataError e = False"

fun isinstance_VersionCheckError :: "error \<Rightarrow> bool" where
  "isinstance_VersionCheckError (VersionCheckError m) = True"
| "isinstance_VersionCheckError e = False"

subsection \<open>A small instance\<close>

text \<open>
  A table of persons (identity, name, version), a session on it and a view on the person
  whose identity is 2. The input of the request carries a version and a new name; the
  entity's \<^verbatim>\<open>apply_changes\<close> checks the version, then takes the name and the next version.
  A criterion is a name a row must have.
\<close>

definition example_rows :: "(nat \<times> string \<times> int) list" where
  "example_rows = [(1, ''ann'', 3), (2, ''bob'', 1), (3, ''ann'', 7)]"

definition example_session :: "(nat \<times> string \<times> int, string) dbsession" where
  "example_session =
     \<lparr>rows = example_rows,
      holds = (\<lambda>c r. fst (snd r) = c),
      order_by = (\<lambda>clauses rs. rs),
      subquery_c = [(''id'', ''id''), (''name'', ''name'')],
      server_defaults = (\<lambda>r. r),
      commit_error = (\<lambda>pending. None)\<rparr>"

definition example_view :: "(nat \<times> string \<times> int, string, int \<times> string) CRUDView" where
  "example_view =
     \<lparr>filters = [(''name'', \<lambda>raw. Inr (Clause raw))],
      accept_order = [(''name'', Expression ''name''), (''age'', Expression ''age'')],
      target_type = (0, [], 0),
      target_is_aliased = False,
      target_name = ''person'',
      update_lock = False,
      use_subquery_after_filter = False,
      identity_filter = (\<lambda>r. fst r = 2),
      context_filter = (\<lambda>r. True),
      runtime_filters = [],
      entity_apply_changes =
        versioned_apply_changes (\<lambda>r. Some (snd (snd r))) (\<lambda>d. Some (fst d))
          (\<lambda>r d. ''version mismatch'') (\<lambda>r d. Inr (fst r, snd d, fst d + 1)),
      GET = Map.empty,
      json = Inr [''person'' \<mapsto> (5, ''robert'')]\<rparr>"

text \<open>
  The same view with a registry of four builders (a list result, a single criterion,
  \<^verbatim>\<open>None\<close>, and one that raises), a runtime filter, and a request with three of the keys
  and one unknown key.
\<close>

definition example_filter_view :: "(nat \<times> string \<times> int, string, int \<times> string) CRUDView" where
  "example_filter_view =
     example_view
       \<lparr>filters :=
          [(''tags'', \<lambda>raw. Inr (PyList [Some raw, None, Some ''vip''])),
           (''name'', \<lambda>raw. Inr (Clause raw)),
           (''none'', \<lambda>raw. Inr PyNone),
           (''bad'', \<lambda>raw. Inl (ValueError raw))],
        runtime_filters := [''tenant''],
        GET := [''name'' \<mapsto> ''ann'', ''tags'' \<mapsto> ''new'', ''none'' \<mapsto> ''z'',
                ''unknown'' \<mapsto> ''u'']\<rparr>"



section \<open>Properties\<close>

subsection \<open>Single-row lookup\<close>

lemma get_by_id_eq:
  "get_by_id v db l =
     (case one (filter (\<lambda>r. context_filter v r \<and> identity_filter v r) (rows db)) of
        Inl e \<Rightarrow> Inl (not_found e) | Inr obj \<Rightarrow> Inr obj)"
  by (simp add: get_by_id_def get_identity_base_def get_base_query_def filter_rows_def
        with_for_update_def Let_def)

lemma one_many: "1 < length xs \<Longrightarrow> one xs = Inl MultipleResultsFound"
  by (cases xs rule: one.cases) simp_all

text \<open>
  C7. A single-row lookup (\<^verbatim>\<open>get_by_id\<close>, as \<^verbatim>\<open>get\<close>, \<^verbatim>\<open>update\<close> and \<^verbatim>\<open>delete\<close> use it):
  when no row satisfies the context restriction and the identity restriction, it fails
  with \<^verbatim>\<open>HTTPNotFound\<close> (status 404); when more than one row does, neither a row nor
  \<^verbatim>\<open>HTTPNotFound\<close> comes back: \<^verbatim>\<open>MultipleResultsFound\<close> goes to the caller, and
  \<^verbatim>\<open>update\<close> and \<^verbatim>\<open>delete\<close> store nothing; when exactly one row does, that row is
  returned.
\<close>

theorem single_row_lookup:
  "(filter (\<lambda>r. context_filter v r \<and> identity_filter v r) (rows db) = [] \<longrightarrow>
      get_by_id v db l = Inl HTTPNotFound \<and> status_code HTTPNotFound = Some 404
      \<and> get v db = Inl HTTPNotFound
      \<and> update v db = (Inl HTTPNotFound, db)
      \<and> delete v db = (Inl HTTPNotFound, db))
   \<and> (1 < length (filter (\<lambda>r. context_filter v r \<and> identity_filter v r) (rows db)) \<longrightarrow>
      get_by_id v db l = Inl MultipleResultsFound
      \<and> get v db = Inl MultipleResultsFound
      \<and> update v db = (Inl MultipleResultsFound, db)
      \<and> delete v db = (Inl MultipleResultsFound, db))
   \<and> (\<forall>x. filter (\<lambda>r. context_filter v r \<and> identity_filter v r) (rows db) = [x] \<longrightarrow>
      get_by_id v db l = Inr x \<and> get v db = Inr (Entity (target_name v) x))"
  by (simp add: get_by_id_eq one_many get_def update_def update_block_def delete_def
        transaction_manager_def)

theorem single_row_lookup_witness:
  "get_by_id example_view example_session False = Inr (2, ''bob'', 1)
   \<and> get_by_id (example_view\<lparr>identity_filter := (\<lambda>r. fst r = 9)\<rparr>) example_session False
       = Inl HTTPNotFound
   \<and> get_by_id (example_view\<lparr>identity_filter := (\<lambda>r. fst (snd r) = ''ann'')\<rparr>)
       example_session False = Inl MultipleResultsFound"
  using single_row_lookup [of example_view example_session False]
    single_row_lookup [of "example_view\<lparr>identity_filter := (\<lambda>r. fst r = 9)\<rparr>" example_session False]
    single_row_lookup [of "example_view\<lparr>identity_filter := (\<lambda>r. fst (snd r) = ''ann'')\<rparr>"
      example_session False]
  by (simp add: example_view_def example_session_def example_rows_def)

subsection \<open>Ordering\<close>

lemma str_split_nonempty: "str_split sep s \<noteq> []"
  by (induction s) (auto split: list.splits)

lemma join_Cons: "ys \<noteq> [] \<Longrightarrow> join sep (x # ys) = x @ sep @ join sep ys"
  by (cases ys) simp_all

lemma join_str_split: "join [sep] (str_split sep s) = s"
proof (induction s)
  case Nil
  show ?case by simp
next
  case (Cons c cs)
  show ?case
  proof (cases "c = sep")
    case True
    with Cons show ?thesis by (simp add: join_Cons str_split_nonempty)
  next
    case False
    obtain t ts where ts: "str_split sep cs = t # ts"
      using str_split_nonempty [of sep cs] by (cases "str_split sep cs") auto
    have "join [sep] ((c # t) # ts) = c # join [sep] (t # ts)"
      by (cases ts) simp_all
    with Cons False ts show ?thesis by simp
  qed
qed

lemma str_split_no_sep: "t \<in> set (str_split sep s) \<Longrightarrow> sep \<notin> set t"
  by (induction s arbitrary: t) (auto split: if_splits list.splits)

lemma sublist_join: "x \<in> set xs \<Longrightarrow> sublist x (join sep xs)"
proof (induction sep xs rule: join.induct)
  case (1 sep)
  then show ?case by simp
next
  case (2 sep y)
  then show ?case by simp
next
  case (3 sep y z zs)
  show ?case
  proof (cases "x = y")
    case True
    then show ?thesis by simp
  next
    case False
    with 3 have "sublist x (join sep (z # zs))" by simp
    then obtain ps ss where "join sep (z # zs) = ps @ x @ ss"
      by (auto simp: sublist_def)
    then have "join sep (y # z # zs) = (y @ sep @ ps) @ x @ ss" by simp
    then show ?thesis unfolding sublist_def by blast
  qed
qed

lemma sublist_message: "k \<in> set ks \<Longrightarrow> sublist k (msg @ join sep ks)"
proof -
  assume "k \<in> set ks"
  then have "sublist k (join sep ks)" by (rule sublist_join)
  then obtain ps ss where "join sep ks = ps @ k @ ss" by (auto simp: sublist_def)
  then have "msg @ join sep ks = (msg @ ps) @ k @ ss" by simp
  then show ?thesis unfolding sublist_def by blast
qed

lemma order_item_desc: "order_item (k @ '' desc'') = (k, True)"
  by (simp add: order_item_def endswith_def)

lemma order_item_plain: "\<not> suffix '' desc'' item \<Longrightarrow> order_item item = (item, False)"
  by (auto simp: order_item_def endswith_def suffix_def)
    (metis append_take_drop_id)

lemma yield_selected:
  "\<not> list_ex (\<lambda>order. map_of registry (fst order) = None) orders \<Longrightarrow>
   concat (map yield_order
     (concat (map (\<lambda>order. (case map_of registry (fst order) of
                               None \<Rightarrow> []
                             | Some entry \<Rightarrow> [(entry, snd order)])) orders)))
   = resolved_ordering registry orders"
proof (induction orders)
  case Nil
  show ?case by simp
next
  case (Cons order orders)
  obtain k d where kd: "order = (k, d)" by (cases order)
  from Cons.prems kd obtain entry where e: "map_of registry k = Some entry" by auto
  from Cons have "concat (map yield_order
     (concat (map (\<lambda>order. (case map_of registry (fst order) of
                               None \<Rightarrow> []
                             | Some entry \<Rightarrow> [(entry, snd order)])) orders)))
   = resolved_ordering registry orders" by simp
  with kd e show ?case by (cases entry) (simp_all add: direction_def)
qed

lemma unknown_comprehension:
  "[fst order. order \<leftarrow> orders, P (fst order)] = filter P (map fst orders)"
  by (induction orders) simp_all

lemma list_ex_unknown:
  "list_ex (\<lambda>order. P (fst order)) orders \<longleftrightarrow> filter P (map fst orders) \<noteq> []"
  by (induction orders) simp_all

lemma order_clauses_eq:
  assumes "GET v ''order'' = Some s" "s \<noteq> []"
  shows "order_clauses v =
    (if unknown_keys v s \<noteq> [] then
       Inl (HTTPServerError (''not implemented, order by '' @ join '', '' (unknown_keys v s)))
     else Inr (resolved_ordering (accept_order v) (parse_order s)))"
proof (cases "unknown_keys v s = []")
  case True
  then have "\<not> list_ex (\<lambda>order. map_of (accept_order v) (fst order) = None) (parse_order s)"
    by (simp add: unknown_keys_def
          list_ex_unknown [of "\<lambda>k. map_of (accept_order v) k = None"])
  with assms True show ?thesis
    by (simp add: order_clauses_def Let_def yield_selected)
next
  case False
  then have "list_ex (\<lambda>order. map_of (accept_order v) (fst order) = None) (parse_order s)"
    by (simp add: unknown_keys_def
          list_ex_unknown [of "\<lambda>k. map_of (accept_order v) k = None"])
  with assms False show ?thesis
    by (simp add: order_clauses_def Let_def unknown_keys_def
          unknown_comprehension [of "\<lambda>k. map_of (accept_order v) k = None"])
qed

text \<open>
  C4. For a non-empty \<^verbatim>\<open>order\<close> parameter: the value is split on commas (joining the
  tokens with commas gives the value back, and no token holds a comma); a token that ends
  in \<^verbatim>\<open>" desc"\<close> gives its key without that ending, descending, any other token gives
  itself, ascending; when a key is not in \<^verbatim>\<open>accept_order\<close>, \<^verbatim>\<open>HTTPServerError\<close> (status
  500) is raised and its message contains every such key, whatever valid keys stand
  beside them; otherwise the clauses are, in the order of the tokens, each registered
  expression with its token's direction, a list entry giving one clause per expression.
  So \<^verbatim>\<open>"name desc,age"\<close> orders by name descending, then by age ascending.
\<close>

theorem order_resolution:
  assumes "GET v ''order'' = Some s" and "s \<noteq> []"
  shows "join '','' (str_split CHR '','' s) = s
     \<and> (\<forall>t\<in>set (str_split CHR '','' s). CHR '','' \<notin> set t)
     \<and> parse_order s = map order_item (str_split CHR '','' s)
     \<and> (\<forall>k. order_item (k @ '' desc'') = (k, True))
     \<and> (\<forall>item. \<not> suffix '' desc'' item \<longrightarrow> order_item item = (item, False))
     \<and> (unknown_keys v s \<noteq> [] \<longrightarrow>
          order_clauses v =
            Inl (HTTPServerError
                  (''not implemented, order by '' @ join '', '' (unknown_keys v s)))
          \<and> status_code (HTTPServerError
                  (''not implemented, order by '' @ join '', '' (unknown_keys v s))) = Some 500
          \<and> (\<forall>k\<in>set (unknown_keys v s).
                sublist k (''not implemented, order by '' @ join '', '' (unknown_keys v s))))
     \<and> (unknown_keys v s = [] \<longrightarrow>
          order_clauses v = Inr (resolved_ordering (accept_order v) (parse_order s)))"
proof -
  have split: "join '','' (str_split CHR '','' s) = s"
    by (rule join_str_split)
  have tokens: "\<forall>t\<in>set (str_split CHR '','' s). CHR '','' \<notin> set t"
    by (blast dest: str_split_no_sep)
  have parse: "parse_order s = map order_item (str_split CHR '','' s)"
    by (rule parse_order_def)
  have desc: "\<forall>k. order_item (k @ '' desc'') = (k, True)"
    by (blast intro: order_item_desc)
  have plain: "\<forall>item. \<not> suffix '' desc'' item \<longrightarrow> order_item item = (item, False)"
    by (blast intro: order_item_plain)
  have named: "\<forall>k\<in>set (unknown_keys v s).
      sublist k (''not implemented, order by '' @ join '', '' (unknown_keys v s))"
    by (blast intro: sublist_message)
  have code: "status_code (HTTPServerError
      (''not implemented, order by '' @ join '', '' (unknown_keys v s))) = Some 500"
    by (rule status_code.simps)
  have bad: "unknown_keys v s \<noteq> [] \<longrightarrow> order_clauses v =
      Inl (HTTPServerError (''not implemented, order by '' @ join '', '' (unknown_keys v s)))"
    using order_clauses_eq [OF assms] by (simp del: append.simps)
  have good: "unknown_keys v s = [] \<longrightarrow>
      order_clauses v = Inr (resolved_ordering (accept_order v) (parse_order s))"
    using order_clauses_eq [OF assms] by (simp del: append.simps)
  from bad code named have failing: "unknown_keys v s \<noteq> [] \<longrightarrow>
          order_clauses v =
            Inl (HTTPServerError
                  (''not implemented, order by '' @ join '', '' (unknown_keys v s)))
          \<and> status_code (HTTPServerError
                  (''not implemented, order by '' @ join '', '' (unknown_keys v s))) = Some 500
          \<and> (\<forall>k\<in>set (unknown_keys v s).
                sublist k (''not implemented, order by '' @ join '', '' (unknown_keys v s)))"
    by blast
  show ?thesis
    by (intro conjI split tokens parse desc plain failing good)
qed

theorem order_resolution_witness:
  "order_clauses (example_view\<lparr>GET := [''order'' \<mapsto> ''name desc,age'']\<rparr>)
       = Inr [Desc ''name'', Asc ''age'']
   \<and> order_clauses (example_view\<lparr>GET := [''order'' \<mapsto> ''foo,name,bar desc'']\<rparr>)
       = Inl (HTTPServerError ''not implemented, order by foo, bar'')"
proof -
  have a: "unknown_keys (example_view\<lparr>GET := [''order'' \<mapsto> ''name desc,age'']\<rparr>)
             ''name desc,age'' = []"
    by (simp add: unknown_keys_def parse_order_def order_item_def endswith_def example_view_def)
  have b: "unknown_keys (example_view\<lparr>GET := [''order'' \<mapsto> ''foo,name,bar desc'']\<rparr>)
             ''foo,name,bar desc'' = [''foo'', ''bar'']"
    by (simp add: unknown_keys_def parse_order_def order_item_def endswith_def example_view_def)
  have c: "resolved_ordering (accept_order example_view) (parse_order ''name desc,age'')
             = [Desc ''name'', Asc ''age'']"
    by (simp add: parse_order_def order_item_def endswith_def example_view_def)
  show ?thesis
    using order_resolution
        [of "example_view\<lparr>GET := [''order'' \<mapsto> ''name desc,age'']\<rparr>" "''name desc,age''"]
      order_resolution
        [of "example_view\<lparr>GET := [''order'' \<mapsto> ''foo,name,bar desc'']\<rparr>"
          "''foo,name,bar desc''"]
    by (simp add: a b c)
qed

text \<open>
  C8. With no \<^verbatim>\<open>order\<close> parameter, or an empty one, iterating \<^verbatim>\<open>order_clauses\<close> yields
  no element at all: not the one element \<^verbatim>\<open>False\<close> that the statement \<^verbatim>\<open>return [False]\<close>
  names.
\<close>

theorem order_absent_yields_nothing:
  "order_clauses example_view = Inr []
   \<and> order_clauses (example_view\<lparr>GET := [''order'' \<mapsto> []]\<rparr>) = Inr []
   \<and> order_clauses example_view \<noteq> Inr [PyFalse]"
  by (simp add: order_clauses_def example_view_def)

subsection \<open>Search: count and pagination\<close>

lemma get_search_results_eq:
  "get_search_results v db None =
     (case query_filters v of
        Inl e \<Rightarrow> (Inl e, v)
      | Inr criteria \<Rightarrow>
          (case pager_slice v of
             Inl e \<Rightarrow> (Inl e, v)
           | Inr pager \<Rightarrow>
               (case order_clauses (rewrite_accept_order v db) of
                  Inl e \<Rightarrow> (Inl e, rewrite_accept_order v db)
                | Inr clauses \<Rightarrow>
                    (Inr (case pager of
                            Some sl \<Rightarrow>
                              getitem_slice sl (order_by db clauses (matching_rows v db criteria))
                          | None \<Rightarrow> order_by db clauses (matching_rows v db criteria),
                          length (matching_rows v db criteria)),
                     rewrite_accept_order v db))))"
  by (simp add: get_search_results_def get_list_base_def get_base_query_def filter_rows_def
        matching_rows_def Let_def split: sum.splits option.splits)






lemma invoked_builders_cong:
  assumes "filters v2 = filters v" "\<forall>k\<in>set (map fst (filters v)). GET v2 k = GET v k"
  shows "invoked_builders v2 ex = invoked_builders v ex"
  unfolding invoked_builders_def assms(1)
proof (rule arg_cong [where f = concat], rule map_cong [OF refl])
  fix x
  assume "x \<in> set (filters v)"
  then have "fst x \<in> set (map fst (filters v))" by simp
  with assms(2) have "GET v2 (fst x) = GET v (fst x)" by blast
  then show "(case x of (k, b) \<Rightarrow>
        (case GET v2 k of
           None \<Rightarrow> []
         | Some raw \<Rightarrow>
             (if ex = None \<or> k \<notin> set (case ex of None \<Rightarrow> [] | Some ks \<Rightarrow> ks)
              then [b raw] else [])))
      = (case x of (k, b) \<Rightarrow>
        (case GET v k of
           None \<Rightarrow> []
         | Some raw \<Rightarrow>
             (if ex = None \<or> k \<notin> set (case ex of None \<Rightarrow> [] | Some ks \<Rightarrow> ks)
              then [b raw] else [])))"
    by (cases x) simp
qed

lemma get_query_filters_cong:
  assumes "filters v2 = filters v" "runtime_filters v2 = runtime_filters v"
    "\<forall>k\<in>set (map fst (filters v)). GET v2 k = GET v k"
  shows "get_query_filters v2 ex = get_query_filters v ex"
  unfolding get_query_filters_def invoked_builders_cong [OF assms(1) assms(3)] assms(2)
  by (rule refl)



lemmas search_eval =
  get_search_results_def query_filters_def get_query_filters_def invoked_builders_def
  pager_slice_def order_clauses_def rewrite_accept_order_def getitem_slice_def
  slice_index_def filter_rows_def get_list_base_def get_base_query_def Let_def

lemmas example_eval = example_view_def example_session_def example_rows_def





subsection \<open>Request filters\<close>

lemma invoked_builders_None:
  "invoked_builders v None =
     concat (map (\<lambda>(k, b). (case GET v k of None \<Rightarrow> [] | Some raw \<Rightarrow> [b raw])) (filters v))"
  unfolding invoked_builders_def
  by (rule arg_cong [where f = concat], rule map_cong [OF refl]) (auto split: option.splits)

lemma raise_first_resolve:
  "(case raise_first
           (concat (map (\<lambda>(k, b). (case params k of None \<Rightarrow> [] | Some raw \<Rightarrow> [b raw])) fs)) of
      Inl e \<Rightarrow> resolve_registry fs params = Inl e
    | Inr tmp \<Rightarrow> resolve_registry fs params = Inr (concat (map contribution tmp)))"
proof (induction fs)
  case Nil
  show ?case by simp
next
  case (Cons f fs)
  obtain k b where f: "f = (k, b)" by (cases f)
  show ?case
  proof (cases "params k")
    case None
    with Cons f show ?thesis by (auto split: sum.splits)
  next
    case (Some raw)
    with Cons f show ?thesis
      by (cases "b raw") (auto split: sum.splits)
  qed
qed

lemma mset_contribution:
  "mset (concat (map plain_result tmp) @ concat (map sequence_result tmp))
     = mset (concat (map contribution tmp))"
proof (induction tmp)
  case Nil
  show ?case by simp
next
  case (Cons r tmp)
  then show ?case by (cases r) simp_all
qed

lemma get_query_filters_refines:
  "(case get_query_filters v None of
      Inl e \<Rightarrow> resolved_filters v = Inl e
    | Inr cs \<Rightarrow> (\<exists>ds. resolved_filters v = Inr ds \<and> mset cs = mset ds)
               \<and> (\<exists>front. cs = front @ runtime_filters v))"
proof (cases "raise_first (invoked_builders v None)")
  case (Inl e)
  with raise_first_resolve [where params = "GET v" and fs = "filters v"] show ?thesis
    by (simp add: get_query_filters_def resolved_filters_def invoked_builders_None)
next
  case (Inr tmp)
  with raise_first_resolve [where params = "GET v" and fs = "filters v"]
  have r: "resolve_registry (filters v) (GET v) = Inr (concat (map contribution tmp))"
    by (simp add: invoked_builders_None)
  have "mset (concat (map plain_result tmp) @ concat (map sequence_result tmp)
              @ runtime_filters v)
        = mset (concat (map contribution tmp) @ runtime_filters v)"
    using mset_contribution [of tmp] by simp
  moreover have "\<exists>front. concat (map plain_result tmp) @ concat (map sequence_result tmp)
              @ runtime_filters v = front @ runtime_filters v"
    by (rule exI [of _ "concat (map plain_result tmp) @ concat (map sequence_result tmp)"])
      simp
  ultimately show ?thesis using Inr r
    by (simp add: get_query_filters_def resolved_filters_def)
qed

lemma get_query_filters_cong2:
  fixes v v2 :: "('r, 'x, 'v) CRUDView"
  assumes "filters v2 = filters v \<and> runtime_filters v2 = runtime_filters v
      \<and> (\<forall>k\<in>set (map fst (filters v)). GET v2 k = GET v k)"
  shows "get_query_filters v2 None = get_query_filters v None"
  using assms by (intro get_query_filters_cong) simp_all

text \<open>
  C6. \<^verbatim>\<open>get_query_filters\<close> (with no \<^verbatim>\<open>exclude\<close>, as \<^verbatim>\<open>query_filters\<close> calls it) against the
  resolution the spec describes, \<open>resolved_filters\<close>: both raise the same exception, the
  one of the first builder that raises; when the method returns a list, its criteria
  are those of the spec's list, each as many times (the method lists the single results
  before the elements of the list results, so the order may differ), and the list ends
  with the runtime filters. A query parameter whose key the registry does not have
  changes nothing: two requests that agree on the registry's keys resolve alike.
\<close>

theorem filter_resolution:
  fixes v :: "('r, 'x, 'v) CRUDView"
  shows
  "(\<forall>e. get_query_filters v None = Inl e \<longrightarrow> resolved_filters v = Inl e)
   \<and> (\<forall>cs. get_query_filters v None = Inr cs \<longrightarrow>
         (\<exists>ds. resolved_filters v = Inr ds \<and> mset cs = mset ds)
         \<and> (\<exists>front. cs = front @ runtime_filters v))
   \<and> (\<forall>ds. resolved_filters v = Inr ds \<longrightarrow> (\<exists>cs. get_query_filters v None = Inr cs))
   \<and> (\<forall>v2 :: ('r, 'x, 'v) CRUDView.
         filters v2 = filters v \<and> runtime_filters v2 = runtime_filters v
         \<and> (\<forall>k\<in>set (map fst (filters v)). GET v2 k = GET v k) \<longrightarrow>
         get_query_filters v2 None = get_query_filters v None)
   \<and> query_filters v = get_query_filters v None"
proof (intro conjI allI impI)
  fix e
  assume "get_query_filters v None = Inl e"
  with get_query_filters_refines [of v] show "resolved_filters v = Inl e" by simp
next
  fix cs
  assume c: "get_query_filters v None = Inr cs"
  with get_query_filters_refines [of v]
  show "\<exists>ds. resolved_filters v = Inr ds \<and> mset cs = mset ds" by simp
  from c get_query_filters_refines [of v]
  show "\<exists>front. cs = front @ runtime_filters v" by simp
next
  fix ds
  assume "resolved_filters v = Inr ds"
  with get_query_filters_refines [of v] show "\<exists>cs. get_query_filters v None = Inr cs"
    by (cases "get_query_filters v None") simp_all
next
  fix v2 :: "('r, 'x, 'v) CRUDView"
  assume "filters v2 = filters v \<and> runtime_filters v2 = runtime_filters v
         \<and> (\<forall>k\<in>set (map fst (filters v)). GET v2 k = GET v k)"
  then show "get_query_filters v2 None = get_query_filters v None"
    by (rule get_query_filters_cong2)
next
  show "query_filters v = get_query_filters v None" by (rule query_filters_def)
qed

theorem filter_resolution_witness:
  "get_query_filters example_filter_view None = Inr [''ann'', ''new'', ''vip'', ''tenant'']
   \<and> resolved_filters example_filter_view = Inr [''new'', ''vip'', ''ann'', ''tenant'']
   \<and> get_query_filters (example_filter_view\<lparr>GET := (GET example_filter_view)(''bad'' \<mapsto> ''q'')\<rparr>) None
       = Inl (ValueError ''q'')
   \<and> resolved_filters (example_filter_view\<lparr>GET := (GET example_filter_view)(''bad'' \<mapsto> ''q'')\<rparr>)
       = Inl (ValueError ''q'')"
proof -
  let ?w = "example_filter_view\<lparr>GET := (GET example_filter_view)(''bad'' \<mapsto> ''q'')\<rparr>"
  have a: "get_query_filters example_filter_view None
      = Inr [''ann'', ''new'', ''vip'', ''tenant'']"
    by (simp add: get_query_filters_def invoked_builders_def example_filter_view_def
          example_view_def)
  have b: "get_query_filters ?w None = Inl (ValueError ''q'')"
    by (simp add: get_query_filters_def invoked_builders_def example_filter_view_def
          example_view_def)
  have c: "resolved_filters example_filter_view = Inr [''new'', ''vip'', ''ann'', ''tenant'']"
    by (simp add: resolved_filters_def example_filter_view_def example_view_def)
  from filter_resolution [of ?w, THEN conjunct1, THEN spec, THEN mp, OF b]
    filter_resolution [of example_filter_view, THEN conjunct2, THEN conjunct1, THEN spec,
      THEN mp, OF a]
    a b c
  show ?thesis by simp
qed

subsection \<open>Update: conflicts and propagation\<close>

lemma stale_conflict_other: "\<not> isinstance_StaleDataError e \<Longrightarrow> stale_conflict e = e"
  by (cases e) simp_all

lemma version_conflict_other: "\<not> isinstance_VersionCheckError e \<Longrightarrow> version_conflict e = e"
  by (cases e) simp_all

lemma update_aborted:
  "update_block v db = Inl e \<Longrightarrow> update v db = (Inl (stale_conflict e), db)"
  by (simp add: update_def transaction_manager_def)

lemma update_commit_failed:
  "update_block v db = Inr (pending, u) \<Longrightarrow> commit_error db pending = Some e \<Longrightarrow>
   update v db = (Inl (stale_conflict e), db)"
  by (simp add: update_def transaction_manager_def)

lemma versioned_mismatch:
  "stored_version old = Some a \<Longrightarrow> input_version data = Some b \<Longrightarrow> b \<noteq> a \<Longrightarrow>
   versioned_apply_changes stored_version input_version describe assign old data
     = Inl (VersionCheckError (describe old data))"
  by (simp add: versioned_apply_changes_def)

lemmas update_eval =
  update_block_def get_by_id_eq sanitize_input_def apply_changes_def
  versioned_apply_changes_def

text \<open>
  C1. \<^verbatim>\<open>update\<close> on a row that exists, with an input that is read:
  when the entity's \<^verbatim>\<open>apply_changes\<close> is the version check of the spec and the version of
  the input differs from the stored one, the result is \<^verbatim>\<open>HTTPConflict\<close> (status 409) with
  the message of the \<^verbatim>\<open>VersionCheckError\<close>, the session is as it was, and a read after
  the call gives what a read before it gave; so for any \<^verbatim>\<open>VersionCheckError\<close> that
  \<^verbatim>\<open>apply_changes\<close> raises. A \<^verbatim>\<open>StaleDataError\<close> raised by the commit gives
  \<^verbatim>\<open>HTTPConflict\<close> with its message, and nothing is stored. Any other exception, raised
  by the lookup, by reading the input, by \<^verbatim>\<open>apply_changes\<close> or by the commit, reaches the
  caller as it is, and nothing is stored.
\<close>

theorem update_conflict:
  fixes v :: "('r, 'x, 'v) CRUDView" and db :: "('r, 'x) dbsession"
  shows
  "(entity_apply_changes v = versioned_apply_changes stored_version input_version describe assign
      \<and> get_by_id v db (update_lock v) = Inr old \<and> sanitize_input v = Inr data
      \<and> stored_version old = Some a \<and> input_version data = Some b \<and> b \<noteq> a \<longrightarrow>
      update v db = (Inl (HTTPConflict (describe old data)), db)
      \<and> status_code (HTTPConflict (describe old data)) = Some 409
      \<and> get v (snd (update v db)) = get v db)
   \<and> (get_by_id v db (update_lock v) = Inr old1 \<and> sanitize_input v = Inr data1
      \<and> apply_changes v old1 data1 True = Inl (VersionCheckError m1) \<longrightarrow>
      update v db = (Inl (HTTPConflict m1), db))
   \<and> (update_block v db = Inr (pending, ()) \<and> commit_error db pending = Some (StaleDataError m2)
      \<longrightarrow> update v db = (Inl (HTTPConflict m2), db))
   \<and> (\<not> isinstance_StaleDataError e3 \<and> get_by_id v db (update_lock v) = Inl e3 \<longrightarrow>
      update v db = (Inl e3, db))
   \<and> (\<not> isinstance_StaleDataError e4 \<and> get_by_id v db (update_lock v) = Inr old4
      \<and> sanitize_input v = Inl e4 \<longrightarrow> update v db = (Inl e4, db))
   \<and> (\<not> isinstance_StaleDataError e5 \<and> \<not> isinstance_VersionCheckError e5
      \<and> get_by_id v db (update_lock v) = Inr old5 \<and> sanitize_input v = Inr data5
      \<and> apply_changes v old5 data5 True = Inl e5 \<longrightarrow> update v db = (Inl e5, db))
   \<and> (\<not> isinstance_StaleDataError e6 \<and> update_block v db = Inr (pending6, ())
      \<and> commit_error db pending6 = Some e6 \<longrightarrow> update v db = (Inl e6, db))"
proof (intro conjI impI)
  assume h: "entity_apply_changes v
        = versioned_apply_changes stored_version input_version describe assign
      \<and> get_by_id v db (update_lock v) = Inr old \<and> sanitize_input v = Inr data
      \<and> stored_version old = Some a \<and> input_version data = Some b \<and> b \<noteq> a"
  then have "apply_changes v old data True = Inl (VersionCheckError (describe old data))"
    by (simp add: apply_changes_def versioned_mismatch)
  with h have "update_block v db = Inl (HTTPConflict (describe old data))"
    by (simp add: update_block_def)
  then show u: "update v db = (Inl (HTTPConflict (describe old data)), db)"
    by (simp add: update_aborted)
  show "status_code (HTTPConflict (describe old data)) = Some 409" by simp
  from u show "get v (snd (update v db)) = get v db" by simp
next
  assume "get_by_id v db (update_lock v) = Inr old1 \<and> sanitize_input v = Inr data1
      \<and> apply_changes v old1 data1 True = Inl (VersionCheckError m1)"
  then have "update_block v db = Inl (HTTPConflict m1)"
    by (simp add: update_block_def)
  then show "update v db = (Inl (HTTPConflict m1), db)"
    by (simp add: update_aborted)
next
  assume "update_block v db = Inr (pending, ())
      \<and> commit_error db pending = Some (StaleDataError m2)"
  then show "update v db = (Inl (HTTPConflict m2), db)"
    by (simp add: update_commit_failed)
next
  assume "\<not> isinstance_StaleDataError e3 \<and> get_by_id v db (update_lock v) = Inl e3"
  then show "update v db = (Inl e3, db)"
    by (simp add: update_block_def update_aborted stale_conflict_other)
next
  assume "\<not> isinstance_StaleDataError e4 \<and> get_by_id v db (update_lock v) = Inr old4
      \<and> sanitize_input v = Inl e4"
  then show "update v db = (Inl e4, db)"
    by (simp add: update_block_def update_aborted stale_conflict_other)
next
  assume "\<not> isinstance_StaleDataError e5 \<and> \<not> isinstance_VersionCheckError e5
      \<and> get_by_id v db (update_lock v) = Inr old5 \<and> sanitize_input v = Inr data5
      \<and> apply_changes v old5 data5 True = Inl e5"
  then show "update v db = (Inl e5, db)"
    by (simp add: update_block_def update_aborted stale_conflict_other version_conflict_other)
next
  assume "\<not> isinstance_StaleDataError e6 \<and> update_block v db = Inr (pending6, ())
      \<and> commit_error db pending6 = Some e6"
  then show "update v db = (Inl e6, db)"
    by (simp add: update_commit_failed stale_conflict_other)
qed

theorem update_conflict_witness:
  "update example_view example_session
     = (Inl (HTTPConflict ''version mismatch''), example_session)
   \<and> update (example_view\<lparr>json := Inr [''person'' \<mapsto> (1, ''robert'')]\<rparr>)
        (example_session\<lparr>commit_error := (\<lambda>pending. Some (StaleDataError ''stale row''))\<rparr>)
     = (Inl (HTTPConflict ''stale row''),
        example_session\<lparr>commit_error := (\<lambda>pending. Some (StaleDataError ''stale row''))\<rparr>)
   \<and> update (example_view\<lparr>json := Inr Map.empty\<rparr>) example_session
     = (Inl (KeyError ''person''), example_session)"
proof -
  let ?v2 = "example_view\<lparr>json := Inr [''person'' \<mapsto> (1, ''robert'')]\<rparr>"
  let ?db2 = "example_session\<lparr>commit_error := (\<lambda>pending. Some (StaleDataError ''stale row''))\<rparr>"
  let ?v3 = "example_view\<lparr>json := Inr Map.empty\<rparr>"
  have h1: "entity_apply_changes example_view
        = versioned_apply_changes (\<lambda>r. Some (snd (snd r))) (\<lambda>d. Some (fst d))
            (\<lambda>r d. ''version mismatch'') (\<lambda>r d. Inr (fst r, snd d, fst d + 1))
      \<and> get_by_id example_view example_session (update_lock example_view)
          = Inr (2, ''bob'', 1)
      \<and> sanitize_input example_view = Inr (5, ''robert'')
      \<and> (\<lambda>r. Some (snd (snd r))) (2::nat, ''bob'', 1::int) = Some 1
      \<and> (\<lambda>d. Some (fst d)) (5::int, ''robert'') = Some 5 \<and> (5::int) \<noteq> 1"
    by (simp add: get_by_id_eq sanitize_input_def example_eval)
  have h2: "update_block ?v2 ?db2
        = Inr ([(1, ''ann'', 3), (2, ''robert'', 2), (3, ''ann'', 7)], ())
      \<and> commit_error ?db2 [(1, ''ann'', 3), (2, ''robert'', 2), (3, ''ann'', 7)]
          = Some (StaleDataError ''stale row'')"
    by (simp add: update_eval example_eval)
  have h3: "\<not> isinstance_StaleDataError (KeyError ''person'')
      \<and> get_by_id ?v3 example_session (update_lock ?v3) = Inr (2, ''bob'', 1)
      \<and> sanitize_input ?v3 = Inl (KeyError ''person'')"
    by (simp add: get_by_id_eq sanitize_input_def example_eval)
  note c1 = update_conflict [of example_view "\<lambda>r. Some (snd (snd r))" "\<lambda>d. Some (fst d)"
      "\<lambda>r d. ''version mismatch''" "\<lambda>r d. Inr (fst r, snd d, fst d + 1)" example_session
      "(2, ''bob'', 1)" "(5, ''robert'')" 1 5, THEN conjunct1, THEN mp, OF h1]
  note c2 = update_conflict [of ?v2 _ _ _ _ ?db2, THEN conjunct2, THEN conjunct2,
      THEN conjunct1, THEN mp, OF h2]
  note c3 = update_conflict [of ?v3 _ _ _ _ example_session, THEN conjunct2, THEN conjunct2,
      THEN conjunct2, THEN conjunct2, THEN conjunct1, THEN mp, OF h3]
  from c1 c2 c3 show ?thesis by simp
qed

subsection \<open>The registries during a request\<close>

lemma search_view:
  "snd (get_search_results v db None) =
     (case query_filters v of
        Inl e \<Rightarrow> v
      | Inr criteria \<Rightarrow>
          (case pager_slice v of Inl e \<Rightarrow> v | Inr pager \<Rightarrow> rewrite_accept_order v db))"
  by (simp add: get_search_results_eq split: sum.splits)

lemma list_op_view: "snd (list_op v db) = snd (get_search_results v db None)"
  by (simp add: list_op_def split: prod.splits sum.splits)

lemma handle_view:
  "fst (snd (handle op v db)) = (if op = List then snd (list_op v db) else v)"
  by (cases op) (simp_all split: prod.splits)

lemma rewrite_accept_order_filters: "filters (rewrite_accept_order v db) = filters v"
  by (simp add: rewrite_accept_order_def)

text \<open>
  C9, as stated, fails: with \<^verbatim>\<open>use_subquery_after_filter\<close> set, \<^verbatim>\<open>list\<close> assigns
  \<^verbatim>\<open>self.accept_order = dict(query.c)\<close>, and the keys of the order registry after the
  request are the column names of the subquery, not the keys it had (the class says so:
  "this means accept\_order will be rewritten").
\<close>

theorem registry_keys_counterexample:
  "\<not> (\<forall>op (v :: (nat \<times> string \<times> int, string, int \<times> string) CRUDView) db.
        set (map fst (accept_order (fst (snd (handle op v db)))))
          = set (map fst (accept_order v)))"
proof
  let ?v = "example_view\<lparr>use_subquery_after_filter := True\<rparr>"
  assume "\<forall>op (v :: (nat \<times> string \<times> int, string, int \<times> string) CRUDView) db.
        set (map fst (accept_order (fst (snd (handle op v db)))))
          = set (map fst (accept_order v))"
  then have same: "set (map fst (accept_order (fst (snd (handle List ?v example_session)))))
      = set (map fst (accept_order ?v))"
    by blast
  have after: "accept_order (fst (snd (handle List ?v example_session)))
      = [(''id'', Expression ''id''), (''name'', Expression ''name'')]"
    by (simp add: handle_view list_op_view search_view search_eval example_eval
          del: handle.simps)
  have "''age'' \<in> set (map fst (accept_order ?v))"
    by (simp add: example_view_def)
  with same have "''age'' \<in> set (map fst (accept_order (fst (snd (handle List ?v example_session)))))"
    by simp
  then show False unfolding after by simp
qed

text \<open>
  C9, amended. No operation changes the filter registry, and an operation changes
  nothing of the view but \<^verbatim>\<open>accept_order\<close>. \<^verbatim>\<open>get\<close>, \<^verbatim>\<open>insert\<close>, \<^verbatim>\<open>update\<close> and \<^verbatim>\<open>delete\<close>
  leave \<^verbatim>\<open>accept_order\<close> as it is, and so does \<^verbatim>\<open>list\<close> when
  \<^verbatim>\<open>use_subquery_after_filter\<close> is not set, or when the filters or the pager raise. With
  \<^verbatim>\<open>use_subquery_after_filter\<close> set, a \<^verbatim>\<open>list\<close> whose filters and pager resolve replaces
  \<^verbatim>\<open>accept_order\<close> by the columns of the subquery, each under its name.
\<close>

theorem registries_after_request:
  fixes v :: "('r, 'x, 'v) CRUDView" and db :: "('r, 'x) dbsession"
  shows
  "filters (fst (snd (handle op v db))) = filters v
   \<and> fst (snd (handle op v db)) = v\<lparr>accept_order := accept_order (fst (snd (handle op v db)))\<rparr>
   \<and> (op \<noteq> List \<or> \<not> use_subquery_after_filter v \<longrightarrow>
        accept_order (fst (snd (handle op v db))) = accept_order v)
   \<and> (op = List \<and> use_subquery_after_filter v
        \<and> query_filters v = Inr criteria \<and> pager_slice v = Inr pager \<longrightarrow>
        accept_order (fst (snd (handle op v db)))
          = map (\<lambda>(name, col). (name, Expression col)) (subquery_c db))
   \<and> (op = List \<and> (query_filters v = Inl e \<or> pager_slice v = Inl e) \<longrightarrow>
        accept_order (fst (snd (handle op v db))) = accept_order v)"
  by (auto simp: handle_view list_op_view search_view rewrite_accept_order_def
        simp del: handle.simps split: sum.splits)

theorem registries_after_request_witness:
  "accept_order (fst (snd (handle List example_view example_session)))
     = accept_order example_view
   \<and> accept_order (fst (snd (handle List (example_view\<lparr>use_subquery_after_filter := True\<rparr>)
        example_session)))
     = [(''id'', Expression ''id''), (''name'', Expression ''name'')]
   \<and> accept_order (fst (snd (handle Update example_view example_session)))
     = accept_order example_view"
proof -
  let ?v = "example_view\<lparr>use_subquery_after_filter := True\<rparr>"
  have a: "List \<noteq> List \<or> \<not> use_subquery_after_filter example_view"
    by (simp add: example_view_def)
  have b: "List = List \<and> use_subquery_after_filter ?v
        \<and> query_filters ?v = Inr [] \<and> pager_slice ?v = Inr None"
    by (simp add: search_eval example_eval)
  have c: "Update \<noteq> List \<or> \<not> use_subquery_after_filter example_view"
    by simp
  note t1 = registries_after_request [of List example_view example_session, THEN conjunct2,
      THEN conjunct2, THEN conjunct1, THEN mp, OF a]
  note t2 = registries_after_request [of List ?v example_session "[]" None, THEN conjunct2,
      THEN conjunct2, THEN conjunct2, THEN conjunct1, THEN mp, OF b]
  note t3 = registries_after_request [of Update example_view example_session, THEN conjunct2,
      THEN conjunct2, THEN conjunct1, THEN mp, OF c]
  from t1 t2 t3 show ?thesis by (simp add: example_session_def del: handle.simps)
qed

subsection \<open>Derived filters\<close>













end
